theory Spec2Isabelle
  imports Complex_Main
begin

text \<open>
  The package \<^verbatim>\<open>bungie_client\<close>: the URL join and the response interpreter of
  \<^verbatim>\<open>utils.py\<close>, the exception classes of \<^verbatim>\<open>exceptions.py\<close>, and the \<^verbatim>\<open>BungieClient\<close> of
  \<^verbatim>\<open>client.py\<close> with its throttle, its translation of errors and its three request
  builders. What the package calls in the standard library (CPython 3.11) and in httpx
  is modelled beside it. A function that can raise returns a sum, with the exception on
  the left; a method of the client takes the session and the world outside it and
  returns both.
\<close>

section \<open>Python values\<close>

text \<open>
  The values that \<^verbatim>\<open>json.loads\<close> produces: \<^verbatim>\<open>None\<close>, booleans, unbounded
  integers, floats, strings, lists and dictionaries with string keys. A string is a list
  of 8-bit characters, read as the code points 0..255. A float is named by its
  \<^verbatim>\<open>repr\<close> (\<^verbatim>\<open>1.0\<close>, \<^verbatim>\<open>-0.0\<close>, \<^verbatim>\<open>1e+22\<close>, \<^verbatim>\<open>nan\<close>, \<^verbatim>\<open>inf\<close>), which determines the
  float; no float arithmetic is ever done on a decoded value. A dictionary is the list of
  its items in insertion order; a decoded dictionary has no key twice.
\<close>

datatype json =
    JNull
  | JBool bool
  | JInt int
  | JFloat string
  | JStr string
  | JList "json list"
  | JObj "(string \<times> json) list"

text \<open>\<^verbatim>\<open>d.get(key, default)\<close>; \<^verbatim>\<open>d.get(key)\<close> is \<^verbatim>\<open>d.get(key, None)\<close>.\<close>

definition dict_get :: "(string \<times> json) list \<Rightarrow> string \<Rightarrow> json \<Rightarrow> json" where
  "dict_get d key dflt = (case map_of d key of None \<Rightarrow> dflt | Some v \<Rightarrow> v)"

text \<open>Truth value of an object, as \<^verbatim>\<open>not x\<close> and \<^verbatim>\<open>if x\<close> test it.\<close>

fun truthy :: "json \<Rightarrow> bool" where
  "truthy JNull = False"
| "truthy (JBool b) = b"
| "truthy (JInt i) = (i \<noteq> 0)"
| "truthy (JFloat r) = (r \<noteq> ''0.0'' \<and> r \<noteq> ''-0.0'')"
| "truthy (JStr s) = (s \<noteq> [])"
| "truthy (JList xs) = (xs \<noteq> [])"
| "truthy (JObj kvs) = (kvs \<noteq> [])"

text \<open>
  \<^verbatim>\<open>x == 1\<close> for an integer literal on the right: numbers compare by value, so \<^verbatim>\<open>True\<close>
  and the float \<^verbatim>\<open>1.0\<close> equal 1; no other kind of value does.
\<close>

fun py_eq_1 :: "json \<Rightarrow> bool" where
  "py_eq_1 (JInt i) = (i = 1)"
| "py_eq_1 (JBool b) = b"
| "py_eq_1 (JFloat r) = (r = ''1.0'')"
| "py_eq_1 JNull = False"
| "py_eq_1 (JStr s) = False"
| "py_eq_1 (JList xs) = False"
| "py_eq_1 (JObj kvs) = False"

subsection \<open>Text of a value\<close>

text \<open>\<^verbatim>\<open>sep.join(parts)\<close>.\<close>

fun join :: "string \<Rightarrow> string list \<Rightarrow> string" where
  "join sep [] = []"
| "join sep [x] = x"
| "join sep (x # y # zs) = x @ sep @ join sep (y # zs)"

text \<open>
  Decimal text of an integer, as \<^verbatim>\<open>str\<close> and an f-string give it: the digits of one
  that is not negative, and a minus sign before the digits of the absolute value.
\<close>

function str_digits :: "int \<Rightarrow> string" where
  "str_digits n =
     (if n < 10 then [''0123456789'' ! nat n]
      else str_digits (n div 10) @ [''0123456789'' ! nat (n mod 10)])"
  by pat_completeness auto
termination
  by (relation "measure nat") auto

declare str_digits.simps [simp del]

definition str_int :: "int \<Rightarrow> string" where
  "str_int i = (if i < 0 then CHR ''-'' # str_digits (- i) else str_digits i)"

text \<open>
  \<^verbatim>\<open>repr\<close> of a string: single quotes, unless the string has a single quote and no
  double quote; the quote and the backslash are escaped with a backslash, tab, newline
  and carriage return by name, every other character that is not printable as
  \<^verbatim>\<open>\xhh\<close>. Below 256 the characters that are not printable are the controls 0..31 and
  127..159, the no-break space 160 and the soft hyphen 173.
\<close>

definition printable :: "char \<Rightarrow> bool" where
  "printable c = (let n = (of_char c :: nat) in (32 \<le> n \<and> n < 127) \<or> (160 < n \<and> n \<noteq> 173))"

definition hex2 :: "char \<Rightarrow> string" where
  "hex2 c = (let n = (of_char c :: nat) in
     [''0123456789abcdef'' ! (n div 16), ''0123456789abcdef'' ! (n mod 16)])"

definition repr_char :: "char \<Rightarrow> char \<Rightarrow> string" where
  "repr_char quote c =
     (if c = quote \<or> c = CHR 0x5C then [CHR 0x5C, c]
      else if c = CHR 0x09 then [CHR 0x5C, CHR ''t'']
      else if c = CHR 0x0A then [CHR 0x5C, CHR ''n'']
      else if c = CHR 0x0D then [CHR 0x5C, CHR ''r'']
      else if printable c then [c]
      else [CHR 0x5C, CHR ''x''] @ hex2 c)"

definition repr_str :: "string \<Rightarrow> string" where
  "repr_str s =
     (let quote = (if CHR 0x27 \<in> set s \<and> CHR 0x22 \<notin> set s then CHR 0x22 else CHR 0x27)
      in [quote] @ concat (map (repr_char quote) s) @ [quote])"

fun py_repr :: "json \<Rightarrow> string" where
  "py_repr JNull = ''None''"
| "py_repr (JBool b) = (if b then ''True'' else ''False'')"
| "py_repr (JInt i) = str_int i"
| "py_repr (JFloat r) = r"
| "py_repr (JStr s) = repr_str s"
| "py_repr (JList xs) = ''['' @ join '', '' (map py_repr xs) @ '']''"
| "py_repr (JObj kvs) =
     ''{'' @ join '', '' (map (\<lambda>(k, v). repr_str k @ '': '' @ py_repr v) kvs) @ ''}''"

text \<open>
  What a replacement field \<^verbatim>\<open>{x}\<close> of an f-string puts into the text: a string as it
  is, any other value as its \<^verbatim>\<open>repr\<close>.
\<close>

fun py_str :: "json \<Rightarrow> string" where
  "py_str (JStr s) = s"
| "py_str JNull = py_repr JNull"
| "py_str (JBool b) = py_repr (JBool b)"
| "py_str (JInt i) = py_repr (JInt i)"
| "py_str (JFloat r) = py_repr (JFloat r)"
| "py_str (JList xs) = py_repr (JList xs)"
| "py_str (JObj kvs) = py_repr (JObj kvs)"

section \<open>The transport's responses and the client's exceptions\<close>

text \<open>
  What the client reads of an \<^verbatim>\<open>httpx.Response\<close>: the status code, the header lines
  in the order received, the value of \<^verbatim>\<open>response.json()\<close> (\<open>None\<close> when the body is not
  JSON and the call raises), and the text that \<^verbatim>\<open>raise_for_status\<close> gives the
  \<^verbatim>\<open>HTTPStatusError\<close> it raises for this response.
\<close>

record response =
  status_code :: int
  response_headers :: "(string \<times> string) list"
  json_body :: "json option"
  status_error_text :: string

text \<open>
  \<^verbatim>\<open>exceptions.py\<close>: three classes, the last two subclasses of the first with nothing
  added. An instance has a message, an \<^verbatim>\<open>error_code\<close> and a \<^verbatim>\<open>response\<close>, both \<^verbatim>\<open>None\<close>
  by default; \<^verbatim>\<open>response\<close> is given a decoded envelope in one place and the transport's
  response in the others.
\<close>

datatype exc_class = BungieAPIException | BungieRateLimitException | BungieMaintenanceException

datatype raw = Envelope json | HttpResponse response

text \<open>
  Everything a call can raise: an exception of the client's own, or one of the
  interpreter's or the transport's that no handler of the client catches.
\<close>

datatype error =
    Bungie exc_class string "json option" "raw option"
  | ValueError
  | AttributeError
  | Uncaught string

section \<open>\<^verbatim>\<open>utils.py\<close>: the response interpreter\<close>

text \<open>
  \<^verbatim>\<open>handle_bungie_response\<close>. A value that is not a dictionary has no \<^verbatim>\<open>get\<close>, and the
  first line raises \<^verbatim>\<open>AttributeError\<close>.
\<close>

fun handle_bungie_response :: "json \<Rightarrow> error + json" where
  "handle_bungie_response (JObj response_data) =
     (if \<not> truthy (dict_get response_data ''Response'' JNull)
         \<and> \<not> py_eq_1 (dict_get response_data ''ErrorCode'' JNull)
      then
        (let error_status = dict_get response_data ''ErrorStatus'' (JStr ''Unknown Error'');
             error_code = dict_get response_data ''ErrorCode'' (JInt 0);
             message = dict_get response_data ''Message'' (JStr ''No error message provided'')
         in Inl (Bungie BungieAPIException
                   (py_str error_status @ '': '' @ py_str message)
                   (Some error_code)
                   (Some (Envelope (JObj response_data)))))
      else Inr (dict_get response_data ''Response'' (JObj response_data)))"
| "handle_bungie_response JNull = Inl AttributeError"
| "handle_bungie_response (JBool b) = Inl AttributeError"
| "handle_bungie_response (JInt i) = Inl AttributeError"
| "handle_bungie_response (JFloat r) = Inl AttributeError"
| "handle_bungie_response (JStr s) = Inl AttributeError"
| "handle_bungie_response (JList xs) = Inl AttributeError"

section \<open>Strings and URLs\<close>

text \<open>
  The library functions that the client calls are modelled as CPython 3.11 defines them,
  on strings of code points below 256. First \<^verbatim>\<open>s.lstrip(c)\<close> and \<^verbatim>\<open>s.rstrip(c)\<close> for a
  single character \<open>c\<close>, \<^verbatim>\<open>s.split(c)\<close>, and the parts of \<open>s\<close> before and after the
  first \<open>c\<close> (\<^verbatim>\<open>s[:s.find(c)]\<close> and \<^verbatim>\<open>s[s.find(c)+1:]\<close> when \<open>c\<close> occurs in \<open>s\<close>).
\<close>

definition lstrip :: "char \<Rightarrow> string \<Rightarrow> string" where
  "lstrip c s = dropWhile (\<lambda>x. x = c) s"

definition rstrip :: "char \<Rightarrow> string \<Rightarrow> string" where
  "rstrip c s = rev (dropWhile (\<lambda>x. x = c) (rev s))"

fun split :: "char \<Rightarrow> string \<Rightarrow> string list" where
  "split c [] = [[]]"
| "split c (x # xs) =
     (if x = c then [] # split c xs
      else (case split c xs of [] \<Rightarrow> [[x]] | seg # segs \<Rightarrow> (x # seg) # segs))"

definition before :: "char \<Rightarrow> string \<Rightarrow> string" where
  "before c s = takeWhile (\<lambda>x. x \<noteq> c) s"

definition after :: "char \<Rightarrow> string \<Rightarrow> string" where
  "after c s = drop 1 (dropWhile (\<lambda>x. x \<noteq> c) s)"

subsection \<open>\<^verbatim>\<open>urllib.parse\<close>\<close>

definition uses_relative :: "string list" where
  "uses_relative = ['''', ''ftp'', ''http'', ''gopher'', ''nntp'', ''imap'',
     ''wais'', ''file'', ''https'', ''shttp'', ''mms'',
     ''prospero'', ''rtsp'', ''rtsps'', ''rtspu'', ''sftp'',
     ''svn'', ''svn+ssh'', ''ws'', ''wss'']"

definition uses_netloc :: "string list" where
  "uses_netloc = ['''', ''ftp'', ''http'', ''gopher'', ''nntp'', ''telnet'',
     ''imap'', ''wais'', ''file'', ''mms'', ''https'', ''shttp'',
     ''snews'', ''prospero'', ''rtsp'', ''rtsps'', ''rtspu'', ''rsync'',
     ''svn'', ''svn+ssh'', ''sftp'', ''nfs'', ''git'', ''git+ssh'',
     ''ws'', ''wss'']"

definition uses_params :: "string list" where
  "uses_params = ['''', ''ftp'', ''hdl'', ''prospero'', ''http'', ''imap'',
     ''https'', ''shttp'', ''rtsp'', ''rtsps'', ''rtspu'', ''sip'',
     ''sips'', ''mms'', ''sftp'', ''tel'']"

definition c0_control_or_space :: "char \<Rightarrow> bool" where
  "c0_control_or_space c = ((of_char c :: nat) \<le> 32)"

definition unsafe_url_byte :: "char \<Rightarrow> bool" where
  "unsafe_url_byte c = (c = CHR 0x09 \<or> c = CHR 0x0D \<or> c = CHR 0x0A)"

definition ascii_upper :: "char \<Rightarrow> bool" where
  "ascii_upper c = (let n = (of_char c :: nat) in 65 \<le> n \<and> n \<le> 90)"

definition ascii_alpha :: "char \<Rightarrow> bool" where
  "ascii_alpha c =
     (let n = (of_char c :: nat) in (65 \<le> n \<and> n \<le> 90) \<or> (97 \<le> n \<and> n \<le> 122))"

definition ascii_digit :: "char \<Rightarrow> bool" where
  "ascii_digit c = (let n = (of_char c :: nat) in 48 \<le> n \<and> n \<le> 57)"

definition scheme_char :: "char \<Rightarrow> bool" where
  "scheme_char c =
     (ascii_alpha c \<or> ascii_digit c \<or> c = CHR ''+'' \<or> c = CHR ''-'' \<or> c = CHR ''.'')"

definition ascii_lower :: "char \<Rightarrow> char" where
  "ascii_lower c = (if ascii_upper c then char_of ((of_char c :: nat) + 32) else c)"

text \<open>
  The test of \<^verbatim>\<open>urlsplit\<close> for a scheme: a colon not at the start, before it an ASCII
  letter followed by scheme characters only.
\<close>

definition has_scheme :: "string \<Rightarrow> bool" where
  "has_scheme url =
     (CHR '':'' \<in> set url
      \<and> (case before CHR '':'' url of [] \<Rightarrow> False | c # cs \<Rightarrow> ascii_alpha c)
      \<and> list_all scheme_char (before CHR '':'' url))"

text \<open>\<^verbatim>\<open>_splitnetloc(url, 2)\<close>: the authority ends at the first of \<^verbatim>\<open>/ ? #\<close>.\<close>

definition splitnetloc :: "string \<Rightarrow> string \<times> string" where
  "splitnetloc url =
     (let rest = drop 2 url;
          delim = (\<lambda>c. c = CHR ''/'' \<or> c = CHR ''?'' \<or> c = CHR ''#'')
      in (takeWhile (\<lambda>c. \<not> delim c) rest, dropWhile (\<lambda>c. \<not> delim c) rest))"

text \<open>
  \<^verbatim>\<open>urlsplit(url, scheme)\<close>. It raises \<^verbatim>\<open>ValueError\<close> for an authority with one bracket
  and not the other, and for a bracketed host that \<^verbatim>\<open>_check_bracketed_host\<close> rejects.
  That check parses an IP literal with the \<^verbatim>\<open>ipaddress\<close> module; the model takes its
  verdict as the parameter \<open>host_ok\<close>. The last check, \<^verbatim>\<open>_checknetloc\<close>, looks for an
  authority that NFKC normalisation changes into one with a delimiter, and accepts
  every authority of code points below 256.
\<close>

definition urlsplit ::
  "(string \<Rightarrow> bool) \<Rightarrow> string \<Rightarrow> string \<Rightarrow>
     error + string \<times> string \<times> string \<times> string \<times> string" where
  "urlsplit host_ok url0 scheme0 =
     (let url1 = filter (\<lambda>c. \<not> unsafe_url_byte c) (dropWhile c0_control_or_space url0);
          scheme1 = filter (\<lambda>c. \<not> unsafe_url_byte c)
                      (rev (dropWhile c0_control_or_space
                        (rev (dropWhile c0_control_or_space scheme0))));
          scheme = (if has_scheme url1 then map ascii_lower (before CHR '':'' url1) else scheme1);
          url2 = (if has_scheme url1 then after CHR '':'' url1 else url1);
          slashes = (take 2 url2 = ''//'');
          netloc = (if slashes then fst (splitnetloc url2) else []);
          url3 = (if slashes then snd (splitnetloc url2) else url2);
          lb = (CHR ''['' \<in> set netloc);
          rb = (CHR '']'' \<in> set netloc)
      in if slashes \<and> ((lb \<and> \<not> rb) \<or> (rb \<and> \<not> lb)) then Inl ValueError
         else if slashes \<and> lb \<and> rb \<and> \<not> host_ok (before CHR '']'' (after CHR ''['' netloc))
         then Inl ValueError
         else
           (let fragment = (if CHR ''#'' \<in> set url3 then after CHR ''#'' url3 else []);
                url4 = (if CHR ''#'' \<in> set url3 then before CHR ''#'' url3 else url3);
                query = (if CHR ''?'' \<in> set url4 then after CHR ''?'' url4 else []);
                url5 = (if CHR ''?'' \<in> set url4 then before CHR ''?'' url4 else url4)
            in Inr (scheme, netloc, url5, query, fragment)))"

text \<open>
  \<^verbatim>\<open>_splitparams\<close>, called on a path with a semicolon: the parameters start at the first
  semicolon of the last segment.
\<close>

definition splitparams :: "string \<Rightarrow> string \<times> string" where
  "splitparams url =
     (if CHR ''/'' \<in> set url then
        (let tail = rev (takeWhile (\<lambda>c. c \<noteq> CHR ''/'') (rev url));
             front = rev (dropWhile (\<lambda>c. c \<noteq> CHR ''/'') (rev url))
         in if CHR '';'' \<in> set tail then (front @ before CHR '';'' tail, after CHR '';'' tail)
            else (url, []))
      else (before CHR '';'' url, after CHR '';'' url))"

definition urlparse ::
  "(string \<Rightarrow> bool) \<Rightarrow> string \<Rightarrow> string \<Rightarrow>
     error + string \<times> string \<times> string \<times> string \<times> string \<times> string" where
  "urlparse host_ok url scheme0 =
     (case urlsplit host_ok url scheme0 of
        Inl e \<Rightarrow> Inl e
      | Inr (scheme, netloc, path, query, fragment) \<Rightarrow>
          if scheme \<in> set uses_params \<and> CHR '';'' \<in> set path
          then Inr (scheme, netloc, fst (splitparams path), snd (splitparams path), query, fragment)
          else Inr (scheme, netloc, path, [], query, fragment))"

definition urlunsplit :: "string \<times> string \<times> string \<times> string \<times> string \<Rightarrow> string" where
  "urlunsplit parts =
     (case parts of (scheme, netloc, url, query, fragment) \<Rightarrow>
        (let url1 = (if netloc \<noteq> [] \<or> (scheme \<noteq> [] \<and> scheme \<in> set uses_netloc)
                        \<or> take 2 url = ''//''
                     then ''//'' @ netloc
                            @ (if url \<noteq> [] \<and> take 1 url \<noteq> ''/'' then ''/'' @ url else url)
                     else url);
             url2 = (if scheme \<noteq> [] then scheme @ '':'' @ url1 else url1);
             url3 = (if query \<noteq> [] then url2 @ ''?'' @ query else url2)
         in if fragment \<noteq> [] then url3 @ ''#'' @ fragment else url3))"

definition urlunparse ::
  "string \<times> string \<times> string \<times> string \<times> string \<times> string \<Rightarrow> string" where
  "urlunparse parts =
     (case parts of (scheme, netloc, url, params, query, fragment) \<Rightarrow>
        urlunsplit (scheme, netloc, if params \<noteq> [] then url @ '';'' @ params else url,
                    query, fragment))"

text \<open>
  Two steps of \<^verbatim>\<open>urljoin\<close>: the assignment
  \<^verbatim>\<open>segments[1:-1] = filter(None, segments[1:-1])\<close>, which drops the empty segments
  between the first and the last, and the loop that resolves \<^verbatim>\<open>.\<close> and \<^verbatim>\<open>..\<close>, where
  popping from an empty list is ignored.
\<close>

fun drop_empty_inner :: "string list \<Rightarrow> string list" where
  "drop_empty_inner (x # y # zs) =
     x # filter (\<lambda>s. s \<noteq> []) (butlast (y # zs)) @ [last (y # zs)]"
| "drop_empty_inner [x] = [x]"
| "drop_empty_inner [] = []"

fun resolve :: "string list \<Rightarrow> string list \<Rightarrow> string list" where
  "resolve resolved_path [] = resolved_path"
| "resolve resolved_path (seg # segs) =
     (if seg = ''..'' then resolve (butlast resolved_path) segs
      else if seg = ''.'' then resolve resolved_path segs
      else resolve (resolved_path @ [seg]) segs)"

definition urljoin :: "(string \<Rightarrow> bool) \<Rightarrow> string \<Rightarrow> string \<Rightarrow> error + string" where
  "urljoin host_ok base url =
     (if base = [] then Inr url
      else if url = [] then Inr base
      else
        (case urlparse host_ok base [] of
           Inl e \<Rightarrow> Inl e
         | Inr (bscheme, bnetloc, bpath, bparams, bquery, bfragment) \<Rightarrow>
        (case urlparse host_ok url bscheme of
           Inl e \<Rightarrow> Inl e
         | Inr (scheme, netloc0, path, params, query, fragment) \<Rightarrow>
             if \<not> (scheme = bscheme \<and> scheme \<in> set uses_relative) then Inr url
             else if scheme \<in> set uses_netloc \<and> netloc0 \<noteq> []
             then Inr (urlunparse (scheme, netloc0, path, params, query, fragment))
             else
               (let netloc = (if scheme \<in> set uses_netloc then bnetloc else netloc0) in
                if path = [] \<and> params = []
                then Inr (urlunparse (scheme, netloc, bpath, bparams,
                                      if query = [] then bquery else query, fragment))
                else
                  (let base_parts0 = split CHR ''/'' bpath;
                       base_parts = (if last base_parts0 = [] then base_parts0
                                     else butlast base_parts0);
                       segments = (if take 1 path = ''/'' then split CHR ''/'' path
                                   else drop_empty_inner (base_parts @ split CHR ''/'' path));
                       resolved0 = resolve [] segments;
                       resolved_path = (if last segments = ''.'' \<or> last segments = ''..''
                                        then resolved0 @ [[]] else resolved0);
                       joined = join ''/'' resolved_path
                   in Inr (urlunparse (scheme, netloc, if joined = [] then ''/'' else joined,
                                       params, query, fragment)))))))"

subsection \<open>\<^verbatim>\<open>utils.py\<close>: joining the base URL and a path\<close>

definition build_url :: "(string \<Rightarrow> bool) \<Rightarrow> string \<Rightarrow> string \<Rightarrow> error + string" where
  "build_url host_ok base_url path =
     urljoin host_ok (rstrip CHR ''/'' base_url @ ''/'') (lstrip CHR ''/'' path)"

subsection \<open>Paths that the join leaves as they are\<close>

text \<open>
  A segment that \<^verbatim>\<open>urljoin\<close> neither drops nor resolves; a character that \<^verbatim>\<open>urlsplit\<close>
  leaves in the path; a character that it leaves in a fragment without taking the text
  before it for a scheme.
\<close>

definition plain_segment :: "string \<Rightarrow> bool" where
  "plain_segment seg = (seg \<noteq> [] \<and> seg \<noteq> ''.'' \<and> seg \<noteq> ''..'')"

definition path_char :: "char \<Rightarrow> bool" where
  "path_char c =
     (\<not> c0_control_or_space c \<and> c \<noteq> CHR '':'' \<and> c \<noteq> CHR ''?'' \<and> c \<noteq> CHR ''#''
      \<and> c \<noteq> CHR '';'')"

definition fragment_char :: "char \<Rightarrow> bool" where
  "fragment_char c = (\<not> unsafe_url_byte c \<and> c \<noteq> CHR '':'')"

section \<open>Integers in text\<close>

text \<open>
  \<^verbatim>\<open>int(s)\<close> for a string: white space around, an optional sign, then decimal digits,
  with single underscores allowed between digits. The interpreter refuses a text of
  more than 4300 digits (its default \<^verbatim>\<open>int_max_str_digits\<close>), when it parses one and when
  it prints one; integers decoded from JSON have passed this test.
\<close>

definition int_space :: "char \<Rightarrow> bool" where
  "int_space c = (let n = (of_char c :: nat) in (9 \<le> n \<and> n \<le> 13) \<or> n = 32 \<or> n = 133 \<or> n = 160)"

fun digits_grouped :: "string \<Rightarrow> bool" where
  "digits_grouped [] = False"
| "digits_grouped [c] = ascii_digit c"
| "digits_grouped (c # d # cs) =
     (ascii_digit c \<and> (if d = CHR ''_'' then digits_grouped cs else digits_grouped (d # cs)))"

definition digits_value :: "string \<Rightarrow> int" where
  "digits_value ds = foldl (\<lambda>acc c. 10 * acc + (int (of_char c) - 48)) 0 ds"

definition int_max_str_digits :: nat where
  "int_max_str_digits = 4300"

definition int_of_str :: "string \<Rightarrow> int option" where
  "int_of_str s =
     (let t = rev (dropWhile int_space (rev (dropWhile int_space s)));
          negative = (take 1 t = ''-'');
          body = (if take 1 t = ''-'' \<or> take 1 t = ''+'' then drop 1 t else t);
          ds = filter (\<lambda>c. c \<noteq> CHR ''_'') body
      in if digits_grouped body \<and> length ds \<le> int_max_str_digits
         then Some (if negative then - digits_value ds else digits_value ds)
         else None)"

definition format_int :: "int \<Rightarrow> error + string" where
  "format_int i =
     (if length (str_digits \<bar>i\<bar>) \<le> int_max_str_digits then Inr (str_int i)
      else Inl ValueError)"

section \<open>\<^verbatim>\<open>client.py\<close>\<close>

subsection \<open>The session, the transport and time\<close>

text \<open>
  The attributes of a \<^verbatim>\<open>BungieClient\<close>, but for the handle of the HTTP client.
  Times are seconds, as \<^verbatim>\<open>time.time()\<close> counts them; the model computes with them as
  real numbers, without the rounding of floats.
\<close>

record session =
  api_key :: string
  base_url :: string
  timeout :: int
  headers :: "(string \<times> string) list"
  last_request_time :: real
  min_time_between_requests :: real

text \<open>\<^verbatim>\<open>__init__\<close>.\<close>

definition init :: "string \<Rightarrow> int \<Rightarrow> session" where
  "init key tmo =
     \<lparr>api_key = key,
      base_url = ''https://www.bungie.net/Platform'',
      timeout = tmo,
      headers = [(''x-API-Key'', key), (''Accept'', ''application/json'')],
      last_request_time = 0,
      min_time_between_requests = 1 / 10\<rparr>"

text \<open>What \<^verbatim>\<open>_make_request\<close> hands to \<^verbatim>\<open>self._client.request\<close>.\<close>

record request =
  req_method :: string
  req_url :: string
  req_params :: "(string \<times> json) list option"
  req_json :: "json option"

text \<open>
  How the awaited transport call ends: with a response of any status, with an
  \<^verbatim>\<open>httpx.RequestError\<close> (connection errors, timeouts and the other failures to get a
  response; the text is \<^verbatim>\<open>str(e)\<close>), or with an exception of another class, named by
  the text.
\<close>

datatype outcome = Returned response | RequestError string | OtherError string

text \<open>
  The world outside the session: the clock that \<^verbatim>\<open>time.time()\<close> reads, the durations
  that \<^verbatim>\<open>asyncio.sleep\<close> was asked for, and the requests dispatched to the transport,
  each with the time of its dispatch; the newest entry is first in both lists.
\<close>

record world =
  clock :: real
  sleeps :: "real list"
  dispatched :: "(real \<times> request) list"

text \<open>
  What surrounds one call: the verdict of the interpreter on bracketed hosts, what the
  transport does with a request and how long that takes, and how much longer than
  asked a sleep lasts.
\<close>

record surroundings =
  host_ok :: "string \<Rightarrow> bool"
  transport :: "request \<Rightarrow> outcome"
  latency :: real
  oversleep :: real

definition time_time :: "world \<Rightarrow> real" where
  "time_time w = clock w"

definition asyncio_sleep :: "surroundings \<Rightarrow> real \<Rightarrow> world \<Rightarrow> world" where
  "asyncio_sleep env delay w =
     w\<lparr>clock := clock w + delay + oversleep env, sleeps := delay # sleeps w\<rparr>"

definition client_request :: "surroundings \<Rightarrow> request \<Rightarrow> world \<Rightarrow> outcome \<times> world" where
  "client_request env req w =
     (transport env req,
      w\<lparr>clock := clock w + latency env, dispatched := (clock w, req) # dispatched w\<rparr>)"

text \<open>
  \<^verbatim>\<open>response.headers.get(key)\<close> of httpx: names are compared in lower case, and the
  values of all lines of that name are joined with a comma and a space.
\<close>

definition headers_get :: "(string \<times> string) list \<Rightarrow> string \<Rightarrow> string option" where
  "headers_get hs key =
     (let items = map snd (filter (\<lambda>kv. map ascii_lower (fst kv) = map ascii_lower key) hs)
      in if items = [] then None else Some (join '', '' items))"

text \<open>
  \<^verbatim>\<open>response.raise_for_status()\<close> of httpx (0.23 and later) raises \<^verbatim>\<open>HTTPStatusError\<close>
  for every status that is not 2xx.
\<close>

definition is_success :: "response \<Rightarrow> bool" where
  "is_success r = (200 \<le> status_code r \<and> status_code r \<le> 299)"

subsection \<open>\<^verbatim>\<open>_make_request\<close>\<close>

text \<open>
  The part of \<^verbatim>\<open>_make_request\<close> after the transport has returned a response and the
  time stamp is set: lines 62 to 79. An \<^verbatim>\<open>int(...)\<close> that fails and a body that is not
  JSON raise \<^verbatim>\<open>ValueError\<close>, which no handler of the method catches.
\<close>

definition interpret_response :: "response \<Rightarrow> error + json" where
  "interpret_response r =
     (if status_code r = 429 then
        (case (case headers_get (response_headers r) ''Retry-After'' of
                 None \<Rightarrow> Some 30
               | Some v \<Rightarrow> int_of_str v) of
           None \<Rightarrow> Inl ValueError
         | Some retry_after \<Rightarrow>
             Inl (Bungie BungieRateLimitException
                    (''Rate limit exceeded. Try again after '' @ str_int retry_after @ '' seconds.'')
                    None
                    (Some (HttpResponse r))))
      else if \<not> is_success r then
        Inl (Bungie BungieAPIException
               (''HTTP error occurred: '' @ status_error_text r)
               (Some (JInt (status_code r)))
               (Some (HttpResponse r)))
      else
        (case json_body r of
           None \<Rightarrow> Inl ValueError
         | Some response_data \<Rightarrow> handle_bungie_response response_data))"

definition make_request ::
  "surroundings \<Rightarrow> string \<Rightarrow> string \<Rightarrow> (string \<times> json) list option \<Rightarrow> json option \<Rightarrow>
     session \<times> world \<Rightarrow> (error + json) \<times> session \<times> world" where
  "make_request env method endpoint params data sw =
     (case sw of (s, w) \<Rightarrow>
        let time_since_last = time_time w - last_request_time s;
            w1 = (if time_since_last < min_time_between_requests s
                  then asyncio_sleep env (min_time_between_requests s - time_since_last) w
                  else w)
        in case build_url (host_ok env) (base_url s) endpoint of
             Inl e \<Rightarrow> (Inl e, s, w1)
           | Inr url \<Rightarrow>
               (case client_request env
                       \<lparr>req_method = method, req_url = url, req_params = params, req_json = data\<rparr>
                       w1 of
                  (Returned r, w2) \<Rightarrow>
                    (interpret_response r, s\<lparr>last_request_time := time_time w2\<rparr>, w2)
                | (RequestError text, w2) \<Rightarrow>
                    (Inl (Bungie BungieAPIException (''Request error occurred: '' @ text) None None),
                     s, w2)
                | (OtherError name, w2) \<Rightarrow> (Inl (Uncaught name), s, w2)))"

subsection \<open>The request builders\<close>

text \<open>\<^verbatim>\<open>str.lower\<close> on code points below 256.\<close>

definition py_lower :: "string \<Rightarrow> string" where
  "py_lower s =
     map (\<lambda>c. let n = (of_char c :: nat)
               in if (65 \<le> n \<and> n \<le> 90) \<or> (192 \<le> n \<and> n \<le> 222 \<and> n \<noteq> 215)
                  then char_of (n + 32) else c) s"

definition platform_map :: "(string \<times> string) list" where
  "platform_map =
     [(''xbox'', ''1''), (''psn'', ''2''), (''steam'', ''3''), (''stadia'', ''5''), (''epic'', ''6'')]"

definition search_destiny_player ::
  "surroundings \<Rightarrow> string \<Rightarrow> string option \<Rightarrow> session \<times> world \<Rightarrow>
     (error + json) \<times> session \<times> world" where
  "search_destiny_player env display_name platform sw =
     (let membership_type =
            (case platform of
               None \<Rightarrow> ''-1''
             | Some p \<Rightarrow>
                 if p \<noteq> [] then
                   (case map_of platform_map (py_lower p) of None \<Rightarrow> ''-1'' | Some t \<Rightarrow> t)
                 else ''-1'');
          endpoint = ''/Destiny2/SearchDestinyPlayer/'' @ membership_type @ ''/'' @ display_name
      in make_request env ''GET'' endpoint None None sw)"

definition get_profile ::
  "surroundings \<Rightarrow> int \<Rightarrow> string \<Rightarrow> string list \<Rightarrow> session \<times> world \<Rightarrow>
     (error + json) \<times> session \<times> world" where
  "get_profile env membership_type destiny_membership_id components sw =
     (case format_int membership_type of
        Inl e \<Rightarrow> (Inl e, sw)
      | Inr t \<Rightarrow>
          make_request env ''GET''
            (''/Destiny2/'' @ t @ ''/Profile/'' @ destiny_membership_id @ ''/'')
            (Some [(''components'', JStr (join '','' components))]) None sw)"

definition get_activity_history ::
  "surroundings \<Rightarrow> int \<Rightarrow> string \<Rightarrow> string \<Rightarrow> int option \<Rightarrow> int \<Rightarrow> int \<Rightarrow> session \<times> world \<Rightarrow>
     (error + json) \<times> session \<times> world" where
  "get_activity_history env membership_type destiny_membership_id character_id mode page count sw =
     (case format_int membership_type of
        Inl e \<Rightarrow> (Inl e, sw)
      | Inr t \<Rightarrow>
          make_request env ''GET''
            (''/Destiny2/'' @ t @ ''/Account/'' @ destiny_membership_id @ ''/Character/''
               @ character_id @ ''/Stats/Activities/'')
            (Some ([(''page'', JInt page), (''count'', JInt count)]
                   @ (case mode of None \<Rightarrow> [] | Some m \<Rightarrow> [(''mode'', JInt m)])))
            None sw)"

subsection \<open>Calls in sequence\<close>

text \<open>
  Time that passes between two calls; the times at which the requests were dispatched,
  newest first; the arguments of a call of \<^verbatim>\<open>_make_request\<close>; and two calls awaited
  one after the other on one session, the second one \<open>idle\<close> seconds after the first has
  ended.
\<close>

definition elapse :: "real \<Rightarrow> world \<Rightarrow> world" where
  "elapse d w = w\<lparr>clock := clock w + d\<rparr>"

definition dispatch_times :: "world \<Rightarrow> real list" where
  "dispatch_times w = map fst (dispatched w)"

record call =
  call_method :: string
  call_endpoint :: string
  call_params :: "(string \<times> json) list option"
  call_data :: "json option"

definition perform :: "surroundings \<Rightarrow> call \<Rightarrow> session \<times> world \<Rightarrow> (error + json) \<times> session \<times> world" where
  "perform env c sw =
     make_request env (call_method c) (call_endpoint c) (call_params c) (call_data c) sw"

definition two_requests ::
  "surroundings \<Rightarrow> call \<Rightarrow> real \<Rightarrow> surroundings \<Rightarrow> call \<Rightarrow> session \<times> world \<Rightarrow>
     session \<times> world" where
  "two_requests env1 call1 idle env2 call2 sw =
     (let after1 = snd (perform env1 call1 sw)
      in snd (perform env2 call2 (fst after1, elapse idle (snd after1))))"

subsection \<open>Responses and surroundings of the examples\<close>

definition no_ip_literal :: "string \<Rightarrow> bool" where
  "no_ip_literal host = False"

definition rate_limited :: "(string \<times> string) list \<Rightarrow> response" where
  "rate_limited hs =
     \<lparr>status_code = 429, response_headers = hs, json_body = None,
      status_error_text = ''Client error 429 Too Many Requests''\<rparr>"

definition not_found :: response where
  "not_found =
     \<lparr>status_code = 404, response_headers = [], json_body = None,
      status_error_text = ''Client error 404 Not Found''\<rparr>"

definition answered :: "json \<Rightarrow> response" where
  "answered body =
     \<lparr>status_code = 200, response_headers = [(''Content-Type'', ''application/json'')],
      json_body = Some body, status_error_text = []\<rparr>"

definition answering :: "response \<Rightarrow> surroundings" where
  "answering r =
     \<lparr>host_ok = no_ip_literal, transport = (\<lambda>req. Returned r), latency = 1 / 20, oversleep = 0\<rparr>"

definition unreachable :: surroundings where
  "unreachable =
     \<lparr>host_ok = no_ip_literal,
      transport = (\<lambda>req. RequestError ''All connection attempts failed''),
      latency = 1 / 100, oversleep = 0\<rparr>"

definition get_foo :: call where
  "get_foo =
     \<lparr>call_method = ''GET'', call_endpoint = ''/Destiny2/Foo'', call_params = None,
      call_data = None\<rparr>"

definition foo_request :: request where
  "foo_request =
     \<lparr>req_method = ''GET'', req_url = ''https://www.bungie.net/Platform/Destiny2/Foo'',
      req_params = None, req_json = None\<rparr>"

definition at_noon :: world where
  "at_noon = \<lparr>clock = 43200, sleeps = [], dispatched = []\<rparr>"

section \<open>Properties of the response interpreter\<close>

text \<open>
  C1. A decoded envelope makes \<^verbatim>\<open>handle_bungie_response\<close> raise exactly when its
  \<^verbatim>\<open>Response\<close> is absent or falsy and its \<^verbatim>\<open>ErrorCode\<close> is absent or not equal to 1.
  What it raises is then a \<^verbatim>\<open>BungieAPIException\<close> (the class itself) whose message is
  the text of \<^verbatim>\<open>ErrorStatus\<close>, a colon and a space, and the text of \<^verbatim>\<open>Message\<close>, with
  \<^verbatim>\<open>Unknown Error\<close> and \<^verbatim>\<open>No error message provided\<close> for an absent key; its code is the
  value of \<^verbatim>\<open>ErrorCode\<close>, or 0 for an absent key; its response is the whole envelope.
\<close>

theorem handle_bungie_response_raises:
  "((\<exists>e. handle_bungie_response (JObj d) = Inl e) \<longleftrightarrow>
      (\<not> truthy (case map_of d ''Response'' of None \<Rightarrow> JNull | Some v \<Rightarrow> v)
       \<and> \<not> py_eq_1 (case map_of d ''ErrorCode'' of None \<Rightarrow> JNull | Some v \<Rightarrow> v)))
   \<and> (\<forall>e. handle_bungie_response (JObj d) = Inl e \<longrightarrow>
        e = Bungie BungieAPIException
              ((case map_of d ''ErrorStatus'' of None \<Rightarrow> ''Unknown Error'' | Some v \<Rightarrow> py_str v)
               @ '': '' @
               (case map_of d ''Message'' of None \<Rightarrow> ''No error message provided''
                | Some v \<Rightarrow> py_str v))
              (Some (case map_of d ''ErrorCode'' of None \<Rightarrow> JInt 0 | Some v \<Rightarrow> v))
              (Some (Envelope (JObj d))))"
  by (auto simp: dict_get_def Let_def split: option.splits)

theorem handle_bungie_response_raises_witness:
  "handle_bungie_response
     (JObj [(''ErrorCode'', JInt 5), (''ErrorStatus'', JStr ''Unauthorized''),
            (''Message'', JStr ''bad key'')])
   = Inl (Bungie BungieAPIException ''Unauthorized: bad key'' (Some (JInt 5))
       (Some (Envelope (JObj [(''ErrorCode'', JInt 5), (''ErrorStatus'', JStr ''Unauthorized''),
            (''Message'', JStr ''bad key'')]))))
   \<and> handle_bungie_response (JObj [])
   = Inl (Bungie BungieAPIException ''Unknown Error: No error message provided''
       (Some (JInt 0)) (Some (Envelope (JObj []))))"
  using handle_bungie_response_raises
          [of "[(''ErrorCode'', JInt 5), (''ErrorStatus'', JStr ''Unauthorized''),
                (''Message'', JStr ''bad key'')]"]
        handle_bungie_response_raises [of "[]"]
  by (simp add: dict_get_def)

text \<open>
  C2. An envelope that meets the success condition (a truthy \<^verbatim>\<open>Response\<close>, or an
  \<^verbatim>\<open>ErrorCode\<close> equal to 1) yields the value under \<^verbatim>\<open>Response\<close> when the key is present,
  and the whole envelope when it is not.
\<close>

theorem handle_bungie_response_success:
  assumes "truthy (case map_of d ''Response'' of None \<Rightarrow> JNull | Some v \<Rightarrow> v)
           \<or> py_eq_1 (case map_of d ''ErrorCode'' of None \<Rightarrow> JNull | Some v \<Rightarrow> v)"
  shows "handle_bungie_response (JObj d) =
           Inr (case map_of d ''Response'' of None \<Rightarrow> JObj d | Some v \<Rightarrow> v)"
  using assms by (auto simp: dict_get_def split: option.splits)

theorem handle_bungie_response_success_witness:
  "truthy (JObj [(''x'', JInt 1)])
   \<and> handle_bungie_response (JObj [(''Response'', JObj [(''x'', JInt 1)]), (''ErrorCode'', JInt 1)])
     = Inr (JObj [(''x'', JInt 1)])
   \<and> py_eq_1 (JInt 1)
   \<and> handle_bungie_response (JObj [(''ErrorCode'', JInt 1)]) = Inr (JObj [(''ErrorCode'', JInt 1)])"
  using handle_bungie_response_success
          [of "[(''Response'', JObj [(''x'', JInt 1)]), (''ErrorCode'', JInt 1)]"]
        handle_bungie_response_success [of "[(''ErrorCode'', JInt 1)]"]
  by simp

section \<open>Properties of \<^verbatim>\<open>build_url\<close>\<close>

lemma split_not_Nil: "split c s \<noteq> []"
  by (induction s) (auto split: list.splits)

lemma join_Cons_Cons: "join sep ((x # seg) # segs) = x # join sep (seg # segs)"
  by (cases segs) simp_all

lemma join_Cons: "segs \<noteq> [] \<Longrightarrow> join sep (seg # segs) = seg @ sep @ join sep segs"
  by (cases segs) simp_all

lemma join_split: "join [c] (split c s) = s"
proof (induction s)
  case Nil
  show ?case by simp
next
  case (Cons x s)
  show ?case
  proof (cases "x = c")
    case True
    with Cons show ?thesis by (simp add: join_Cons split_not_Nil)
  next
    case False
    obtain seg segs where eq: "split c s = seg # segs"
      using split_not_Nil [of c s] by (cases "split c s") auto
    with False Cons show ?thesis by (simp add: join_Cons_Cons)
  qed
qed

lemma join_seam: "ys \<noteq> [] \<Longrightarrow> join sep (xs @ [[]]) @ join sep ys = join sep (xs @ ys)"
proof (induction xs)
  case Nil
  then show ?case by simp
next
  case (Cons x xs)
  then show ?case by (simp add: join_Cons)
qed

lemma resolve_plain:
  "list_all (\<lambda>seg. seg \<noteq> ''.'' \<and> seg \<noteq> ''..'') segs \<Longrightarrow> resolve acc segs = acc @ segs"
  by (induction segs arbitrary: acc) auto

lemma drop_empty_inner_Cons:
  "ys \<noteq> [] \<Longrightarrow> drop_empty_inner (x # ys) = x # filter (\<lambda>s. s \<noteq> []) (butlast ys) @ [last ys]"
  by (cases ys) simp_all

lemma filter_plain: "list_all plain_segment segs \<Longrightarrow> filter (\<lambda>s. s \<noteq> []) segs = segs"
  by (induction segs) (auto simp: plain_segment_def)

lemma plain_no_dots:
  "list_all plain_segment segs \<Longrightarrow> list_all (\<lambda>seg. seg \<noteq> ''.'' \<and> seg \<noteq> ''..'') segs"
  by (induction segs) (auto simp: plain_segment_def)

lemma uses_relative_netloc: "scheme \<in> set uses_relative \<Longrightarrow> scheme \<in> set uses_netloc"
  by (auto simp: uses_relative_def uses_netloc_def)

lemma urlunparse_append:
  assumes "bpath = CHR ''/'' # rest" and "take 1 p \<noteq> ''/''"
  shows "urlunparse (scheme, netloc, bpath @ p, params, query, fragment)
           = urlunparse (scheme, netloc, bpath, [], [], [])
               @ urlunparse ([], [], p, params, query, fragment)"
proof -
  have a: "take 2 (bpath @ p @ x) = ''//'' \<longleftrightarrow> take 2 bpath = ''//''" if "take 1 x \<noteq> ''/''" for x
    using assms that by (cases rest; cases p; cases x) auto
  have b: "take 2 (p @ x) \<noteq> ''//''" if "take 1 x \<noteq> ''/''" for x
    using assms that by (cases p; cases x) auto
  have c: "take 1 ('';'' @ params) \<noteq> ''/''" "take 1 ([]::string) \<noteq> ''/''"
    by simp_all
  show ?thesis
    using a [OF c(1)] a [OF c(2)] b [OF c(1)] b [OF c(2)] assms(1)
    by (simp add: urlunparse_def urlunsplit_def Let_def)
qed


lemma plain_no_leading_slash:
  assumes "split c p = psegs @ [final]" and "list_all plain_segment psegs"
  shows "take 1 p \<noteq> [c]"
proof
  assume "take 1 p = [c]"
  then obtain q where "p = c # q" by (cases p) auto
  then have "psegs @ [final] = [] # split c q"
    using assms(1) by simp
  then have "\<exists>more. psegs = [] # more"
    using split_not_Nil [of c q] by (cases psegs) auto
  with assms(2) show False by (auto simp: plain_segment_def)
qed

lemma urljoin_plain:
  assumes base: "urlparse ok b [] = Inr (scheme, netloc, bpath, [], [], [])"
    and base_back: "urlunparse (scheme, netloc, bpath, [], [], []) = b"
    and rel: "scheme \<in> set uses_relative"
    and bsegs: "split CHR ''/'' bpath = [] # bsegs @ [[]]" "list_all plain_segment bsegs"
    and path: "urlparse ok u scheme = Inr (scheme, [], p, params, query, fragment)"
    and path_back: "urlunparse ([], [], p, params, query, fragment) = u"
    and psegs: "split CHR ''/'' p = psegs @ [final]" "list_all plain_segment psegs"
      "final \<noteq> ''.''" "final \<noteq> ''..''"
  shows "urljoin ok b u = Inr (b @ u)"
proof -
  have bpath: "bpath = join ''/'' ([] # bsegs @ [[]])"
    using join_split [of "CHR ''/''" bpath] bsegs(1) by simp
  then obtain rest where rest: "bpath = CHR ''/'' # rest"
    by (simp add: join_Cons)
  have p: "p = join ''/'' (psegs @ [final])"
    using join_split [of "CHR ''/''" p] psegs(1) by simp
  have no_slash: "take 1 p \<noteq> ''/''"
    using plain_no_leading_slash [OF psegs(1,2)] .
  have "urlunparse (scheme, netloc, CHR ''/'' # rest, [], [], []) \<noteq> []"
    by (simp add: urlunparse_def urlunsplit_def Let_def)
  with base_back rest have b_not_Nil: "b \<noteq> []"
    by simp
  have append: "urlunparse (scheme, netloc, bpath @ p, params, query, fragment) = b @ u"
    using urlunparse_append [OF rest no_slash] base_back path_back by simp
  show ?thesis
  proof (cases "u = []")
    case True
    with b_not_Nil show ?thesis by (simp add: urljoin_def)
  next
    case False
    show ?thesis
    proof (cases "p = [] \<and> params = []")
      case True
      with append have "urlunparse (scheme, netloc, bpath, [], query, fragment) = b @ u"
        by simp
      with True False b_not_Nil base path rel show ?thesis
        by (simp add: urljoin_def uses_relative_netloc)
    next
      case not_both: False
      have all: "[] # bsegs @ [[]] @ psegs @ [final] = [] # (bsegs @ [[]] @ psegs @ [final])"
        by simp
      have segments: "drop_empty_inner ([] # bsegs @ [] # psegs @ [final])
                        = [] # bsegs @ psegs @ [final]"
        using bsegs(2) psegs(2)
        by (simp add: drop_empty_inner_Cons butlast_append filter_plain)
      have plain: "list_all (\<lambda>seg. seg \<noteq> ''.'' \<and> seg \<noteq> ''..'') ([] # bsegs @ psegs @ [final])"
        using plain_no_dots [OF bsegs(2)] plain_no_dots [OF psegs(2)] psegs(3,4) by simp
      have resolved: "resolve [] ([] # bsegs @ psegs @ [final]) = [] # bsegs @ psegs @ [final]"
        using resolve_plain [OF plain, of "[]"] by simp
      have joined: "join ''/'' ([] # bsegs @ psegs @ [final]) = bpath @ p"
        using join_seam [of "psegs @ [final]" "''/''" "[] # bsegs"] bpath p by simp
      have joined_not_Nil: "bpath @ p \<noteq> []"
        using rest by simp
      have bpath_not_Nil: "bpath \<noteq> []"
        using rest by simp
      from False not_both b_not_Nil base path rel no_slash psegs(3,4) append bpath_not_Nil
      show ?thesis
        by (auto simp: urljoin_def uses_relative_netloc bsegs(1) psegs(1) Let_def
              segments resolved joined joined_not_Nil
              simp del: drop_empty_inner.simps resolve.simps join.simps)
    qed
  qed
qed

lemma rstrip_no_slash: "rstrip c s = [] \<or> last (rstrip c s) \<noteq> c"
proof -
  have "dropWhile (\<lambda>x. x = c) (rev s) = [] \<or> hd (dropWhile (\<lambda>x. x = c) (rev s)) \<noteq> c"
    using hd_dropWhile [of "\<lambda>x. x = c" "rev s"] by auto
  then show ?thesis
    by (auto simp: rstrip_def last_rev)
qed

lemma lstrip_no_slash: "lstrip c s = [] \<or> hd (lstrip c s) \<noteq> c"
  using hd_dropWhile [of "\<lambda>x. x = c" s] by (auto simp: lstrip_def)

text \<open>
  C3, as the code has it. Take a base URL that, with its trailing slashes replaced by
  one, \<^verbatim>\<open>urlparse\<close> splits into a scheme that allows relative references, an authority
  and a path, with no parameters, query or fragment, and \<^verbatim>\<open>urlunparse\<close> puts together
  again unchanged; and a path that, without its leading slashes, \<^verbatim>\<open>urlparse\<close> splits into
  a path, parameters, a query and a fragment, with no scheme of its own and no
  authority, and \<^verbatim>\<open>urlunparse\<close> puts together again unchanged. If the base's path has no
  empty segment but its first and its last, the other path has none but possibly its
  last, and neither has a segment \<^verbatim>\<open>.\<close> or \<^verbatim>\<open>..\<close>, then \<^verbatim>\<open>build_url\<close> returns the base
  without its trailing slashes, one slash, and the path without its leading slashes:
  no slash is left on either side of the seam, and the rest of both is unchanged.
\<close>

theorem build_url_joins:
  assumes "urlparse ok (rstrip CHR ''/'' base @ ''/'') [] = Inr (scheme, netloc, bpath, [], [], [])"
    and "urlunparse (scheme, netloc, bpath, [], [], []) = rstrip CHR ''/'' base @ ''/''"
    and "scheme \<in> set uses_relative"
    and "split CHR ''/'' bpath = [] # bsegs @ [[]]" and "list_all plain_segment bsegs"
    and "urlparse ok (lstrip CHR ''/'' path) scheme = Inr (scheme, [], p, params, query, fragment)"
    and "urlunparse ([], [], p, params, query, fragment) = lstrip CHR ''/'' path"
    and "split CHR ''/'' p = psegs @ [final]" and "list_all plain_segment psegs"
    and "final \<noteq> ''.''" and "final \<noteq> ''..''"
  shows "build_url ok base path = Inr (rstrip CHR ''/'' base @ ''/'' @ lstrip CHR ''/'' path)
         \<and> (rstrip CHR ''/'' base = [] \<or> last (rstrip CHR ''/'' base) \<noteq> CHR ''/'')
         \<and> (lstrip CHR ''/'' path = [] \<or> hd (lstrip CHR ''/'' path) \<noteq> CHR ''/'')"
  using urljoin_plain [OF assms] rstrip_no_slash [of "CHR ''/''" base]
    lstrip_no_slash [of "CHR ''/''" path]
  by (simp add: build_url_def)


theorem build_url_joins_witness:
  "urlparse no_ip_literal (rstrip CHR ''/'' ''https://www.bungie.net/Platform'' @ ''/'') []
     = Inr (''https'', ''www.bungie.net'', ''/Platform/'', [], [], [])
   \<and> urlunparse (''https'', ''www.bungie.net'', ''/Platform/'', [], [], [])
     = rstrip CHR ''/'' ''https://www.bungie.net/Platform'' @ ''/''
   \<and> ''https'' \<in> set uses_relative
   \<and> split CHR ''/'' ''/Platform/'' = [] # [''Platform''] @ [[]]
   \<and> list_all plain_segment [''Platform'']
   \<and> urlparse no_ip_literal (lstrip CHR ''/'' ''/Destiny2/SearchDestinyPlayer/-1/Name#1234'')
         ''https''
     = Inr (''https'', [], ''Destiny2/SearchDestinyPlayer/-1/Name'', [], [], ''1234'')
   \<and> urlunparse ([], [], ''Destiny2/SearchDestinyPlayer/-1/Name'', [], [], ''1234'')
     = lstrip CHR ''/'' ''/Destiny2/SearchDestinyPlayer/-1/Name#1234''
   \<and> split CHR ''/'' ''Destiny2/SearchDestinyPlayer/-1/Name''
     = [''Destiny2'', ''SearchDestinyPlayer'', ''-1''] @ [''Name'']
   \<and> list_all plain_segment [''Destiny2'', ''SearchDestinyPlayer'', ''-1'']
   \<and> build_url no_ip_literal ''https://www.bungie.net/Platform''
         ''/Destiny2/SearchDestinyPlayer/-1/Name#1234''
     = Inr ''https://www.bungie.net/Platform/Destiny2/SearchDestinyPlayer/-1/Name#1234''"
proof -
  have base:
    "urlparse no_ip_literal (rstrip CHR ''/'' ''https://www.bungie.net/Platform'' @ ''/'') []
       = Inr (''https'', ''www.bungie.net'', ''/Platform/'', [], [], [])"
    by code_simp
  have base_back:
    "urlunparse (''https'', ''www.bungie.net'', ''/Platform/'', [], [], [])
       = rstrip CHR ''/'' ''https://www.bungie.net/Platform'' @ ''/''"
    by code_simp
  have rel: "''https'' \<in> set uses_relative"
    by code_simp
  have bsegs: "split CHR ''/'' ''/Platform/'' = [] # [''Platform''] @ [[]]"
    by code_simp
  have bplain: "list_all plain_segment [''Platform'']"
    by code_simp
  have path:
    "urlparse no_ip_literal (lstrip CHR ''/'' ''/Destiny2/SearchDestinyPlayer/-1/Name#1234'')
         ''https''
       = Inr (''https'', [], ''Destiny2/SearchDestinyPlayer/-1/Name'', [], [], ''1234'')"
    by code_simp
  have path_back:
    "urlunparse ([], [], ''Destiny2/SearchDestinyPlayer/-1/Name'', [], [], ''1234'')
       = lstrip CHR ''/'' ''/Destiny2/SearchDestinyPlayer/-1/Name#1234''"
    by code_simp
  have psegs: "split CHR ''/'' ''Destiny2/SearchDestinyPlayer/-1/Name''
                 = [''Destiny2'', ''SearchDestinyPlayer'', ''-1''] @ [''Name'']"
    by code_simp
  have pplain: "list_all plain_segment [''Destiny2'', ''SearchDestinyPlayer'', ''-1'']"
    by code_simp
  have final: "''Name'' \<noteq> ''.''" "''Name'' \<noteq> ''..''"
    by simp_all
  have joined:
    "rstrip CHR ''/'' ''https://www.bungie.net/Platform'' @ ''/''
       @ lstrip CHR ''/'' ''/Destiny2/SearchDestinyPlayer/-1/Name#1234''
     = ''https://www.bungie.net/Platform/Destiny2/SearchDestinyPlayer/-1/Name#1234''"
    by code_simp
  have result:
    "build_url no_ip_literal ''https://www.bungie.net/Platform''
         ''/Destiny2/SearchDestinyPlayer/-1/Name#1234''
       = Inr ''https://www.bungie.net/Platform/Destiny2/SearchDestinyPlayer/-1/Name#1234''"
    using build_url_joins [OF base base_back rel bsegs bplain path path_back psegs pplain final]
    by (simp only: joined)
  show ?thesis
    by (intro conjI base base_back rel bsegs bplain path path_back psegs pplain result)
qed

lemma build_url_trailing_slash:
  "build_url no_ip_literal ''https://www.bungie.net/Platform/'' ''Destiny2/2/Profile/4611/''
     = Inr ''https://www.bungie.net/Platform/Destiny2/2/Profile/4611/''"
  by code_simp

lemma build_url_double_slash:
  "build_url no_ip_literal ''https://www.bungie.net/Platform'' ''/Destiny2//Foo''
     = Inr ''https://www.bungie.net/Platform/Destiny2/Foo''"
  by code_simp

lemma build_url_dot_dot:
  "build_url no_ip_literal ''https://www.bungie.net/Platform'' ''/Destiny2/../../Foo''
     = Inr ''https://www.bungie.net/Foo''"
  by code_simp

lemma build_url_absolute:
  "build_url no_ip_literal ''https://www.bungie.net/Platform'' ''http://example.org/Foo''
     = Inr ''http://example.org/Foo''"
  by code_simp

text \<open>
  Where the join is not a concatenation: an empty segment of the path is dropped, and
  \<^verbatim>\<open>..\<close> segments are resolved, into the base's own path too.
\<close>

theorem build_url_changes_path:
  "build_url no_ip_literal ''https://www.bungie.net/Platform'' ''/Destiny2//Foo''
     = Inr ''https://www.bungie.net/Platform/Destiny2/Foo''
   \<and> rstrip CHR ''/'' ''https://www.bungie.net/Platform'' @ ''/'' @ lstrip CHR ''/'' ''/Destiny2//Foo''
     = ''https://www.bungie.net/Platform/Destiny2//Foo''
   \<and> build_url no_ip_literal ''https://www.bungie.net/Platform'' ''/Destiny2/../../Foo''
     = Inr ''https://www.bungie.net/Foo''"
proof -
  have "rstrip CHR ''/'' ''https://www.bungie.net/Platform'' @ ''/'' @ lstrip CHR ''/'' ''/Destiny2//Foo''
     = ''https://www.bungie.net/Platform/Destiny2//Foo''"
    by code_simp
  then show ?thesis
    by (simp only: build_url_double_slash build_url_dot_dot)
qed

text \<open>
  For the base URL of the client, with any number of trailing slashes, the conditions
  are met by every path made of path characters, with no empty segment but possibly the
  last and no segment \<^verbatim>\<open>.\<close> or \<^verbatim>\<open>..\<close>, followed or not by \<^verbatim>\<open>#\<close> and a fragment that is not
  empty.
\<close>

lemma unsafe_is_c0: "unsafe_url_byte c \<Longrightarrow> c0_control_or_space c"
  by (auto simp: unsafe_url_byte_def c0_control_or_space_def)

lemma path_char_safe: "list_all path_char q \<Longrightarrow> filter (\<lambda>c. \<not> unsafe_url_byte c) q = q"
  by (induction q) (auto simp: path_char_def dest: unsafe_is_c0)

lemma fragment_char_safe:
  "list_all fragment_char f \<Longrightarrow> filter (\<lambda>c. \<not> unsafe_url_byte c) f = f"
  by (induction f) (auto simp: fragment_char_def)

lemma path_char_set:
  "list_all path_char q \<Longrightarrow>
     CHR '':'' \<notin> set q \<and> CHR ''?'' \<notin> set q \<and> CHR ''#'' \<notin> set q \<and> CHR '';'' \<notin> set q"
  by (induction q) (auto simp: path_char_def)

lemma fragment_char_set: "list_all fragment_char f \<Longrightarrow> CHR '':'' \<notin> set f"
  by (induction f) (auto simp: fragment_char_def)

lemma before_append: "c \<notin> set q \<Longrightarrow> before c (q @ c # f) = q"
  by (induction q) (auto simp: before_def)

lemma after_append: "c \<notin> set q \<Longrightarrow> after c (q @ c # f) = f"
  by (induction q) (auto simp: after_def)

lemma https_default: 
  "filter (\<lambda>c. \<not> unsafe_url_byte c)
     (rev (dropWhile c0_control_or_space (rev (dropWhile c0_control_or_space ''https''))))
   = ''https''"
  by code_simp

lemma has_scheme_no_colon: "CHR '':'' \<notin> set u \<Longrightarrow> has_scheme u = False"
  by (simp add: has_scheme_def)

lemma urlsplit_path:
  assumes "list_all path_char q" and "take 1 q \<noteq> ''/''"
  shows "urlsplit ok q ''https'' = Inr (''https'', [], q, [], [])"
proof -
  have "dropWhile c0_control_or_space q = q"
    using assms(1) by (cases q) (auto simp: path_char_def)
  then have url1: "filter (\<lambda>c. \<not> unsafe_url_byte c) (dropWhile c0_control_or_space q) = q"
    by (simp add: path_char_safe [OF assms(1)])
  have slashes: "(take 2 q = ''//'') = False"
    using assms(2) by (cases q) auto
  have no_scheme: "has_scheme q = False"
    using path_char_set [OF assms(1)] by (simp add: has_scheme_no_colon)
  have no_delim: "(CHR ''#'' \<in> set q) = False" "(CHR ''?'' \<in> set q) = False"
    using path_char_set [OF assms(1)] by simp_all
  show ?thesis
    by (simp only: urlsplit_def Let_def url1 https_default no_scheme slashes no_delim
          if_False simp_thms list.set empty_iff)
qed

lemma urlsplit_path_fragment:
  assumes "list_all path_char q" and "take 1 q \<noteq> ''/''" and "list_all fragment_char f"
  shows "urlsplit ok (q @ CHR ''#'' # f) ''https'' = Inr (''https'', [], q, [], f)"
proof -
  have "dropWhile c0_control_or_space (q @ CHR ''#'' # f) = q @ CHR ''#'' # f"
    using assms(1) by (cases q) (auto simp: path_char_def c0_control_or_space_def)
  moreover have "filter (\<lambda>c. \<not> unsafe_url_byte c) (q @ CHR ''#'' # f) = q @ CHR ''#'' # f"
    using path_char_safe [OF assms(1)] fragment_char_safe [OF assms(3)]
    by (simp add: unsafe_url_byte_def)
  ultimately have url1:
    "filter (\<lambda>c. \<not> unsafe_url_byte c) (dropWhile c0_control_or_space (q @ CHR ''#'' # f))
       = q @ CHR ''#'' # f"
    by simp
  have slashes: "(take 2 (q @ CHR ''#'' # f) = ''//'') = False"
    using assms(2) by (cases q) auto
  have no_scheme: "has_scheme (q @ CHR ''#'' # f) = False"
    using path_char_set [OF assms(1)] fragment_char_set [OF assms(3)]
    by (simp add: has_scheme_no_colon)
  have delim: "(CHR ''#'' \<in> set (q @ CHR ''#'' # f)) = True" "(CHR ''?'' \<in> set q) = False"
    "before CHR ''#'' (q @ CHR ''#'' # f) = q" "after CHR ''#'' (q @ CHR ''#'' # f) = f"
    using path_char_set [OF assms(1)] by (simp_all add: before_append after_append)
  show ?thesis
    by (simp only: urlsplit_def Let_def url1 https_default no_scheme slashes delim
          if_False if_True simp_thms list.set empty_iff)
qed

lemma rstrip_replicate:
  assumes "s \<noteq> []" and "last s \<noteq> c"
  shows "rstrip c (s @ replicate n c) = s"
proof -
  have "dropWhile (\<lambda>x. x = c) (replicate n c @ rev s) = rev s"
    using assms by (induction n) (auto simp: hd_rev dropWhile_eq_self_iff)
  then show ?thesis
    by (simp add: rstrip_def)
qed


lemma urlparse_path:
  assumes "list_all path_char q" and "take 1 q \<noteq> ''/''"
  shows "urlparse ok q ''https'' = Inr (''https'', [], q, [], [], [])"
  using path_char_set [OF assms(1)] by (simp add: urlparse_def urlsplit_path [OF assms])

lemma urlparse_path_fragment:
  assumes "list_all path_char q" and "take 1 q \<noteq> ''/''" and "list_all fragment_char f"
  shows "urlparse ok (q @ CHR ''#'' # f) ''https'' = Inr (''https'', [], q, [], [], f)"
  using path_char_set [OF assms(1)] by (simp add: urlparse_def urlsplit_path_fragment [OF assms])

lemma urlunparse_path:
  "take 1 q \<noteq> ''/'' \<Longrightarrow> urlunparse ([], [], q, [], [], []) = q"
  by (cases q) (auto simp: urlunparse_def urlunsplit_def Let_def)

lemma urlunparse_path_fragment:
  "take 1 q \<noteq> ''/'' \<Longrightarrow> f \<noteq> [] \<Longrightarrow> urlunparse ([], [], q, [], [], f) = q @ CHR ''#'' # f"
  by (cases q) (auto simp: urlunparse_def urlunsplit_def Let_def)

lemma bungie_base:
  "urlparse ok ''https://www.bungie.net/Platform/'' []
     = Inr (''https'', ''www.bungie.net'', ''/Platform/'', [], [], [])"
  "urlunparse (''https'', ''www.bungie.net'', ''/Platform/'', [], [], [])
     = ''https://www.bungie.net/Platform/''"
  "''https'' \<in> set uses_relative"
  "split CHR ''/'' ''/Platform/'' = [] # [''Platform''] @ [[]]"
  "list_all plain_segment [''Platform'']"
  by code_simp+

lemma bungie_build_url:
  assumes "lstrip CHR ''/'' path = q
           \<or> (lstrip CHR ''/'' path = q @ CHR ''#'' # f \<and> f \<noteq> [] \<and> list_all fragment_char f)"
    and "list_all path_char q"
    and "split CHR ''/'' q = psegs @ [final]" and "list_all plain_segment psegs"
    and "final \<noteq> ''.''" and "final \<noteq> ''..''"
  shows "build_url ok (''https://www.bungie.net/Platform'' @ replicate n CHR ''/'') path
           = Inr (''https://www.bungie.net/Platform/'' @ lstrip CHR ''/'' path)"
proof -
  have base: "rstrip CHR ''/'' (''https://www.bungie.net/Platform'' @ replicate n CHR ''/'')
                = ''https://www.bungie.net/Platform''"
    by (rule rstrip_replicate) simp_all
  have no_slash: "take 1 q \<noteq> ''/''"
    using plain_no_leading_slash [OF assms(3,4)] .
  from assms(1) have
    "urljoin ok ''https://www.bungie.net/Platform/'' (lstrip CHR ''/'' path)
       = Inr (''https://www.bungie.net/Platform/'' @ lstrip CHR ''/'' path)"
  proof
    assume whole: "lstrip CHR ''/'' path = q"
    show ?thesis
      unfolding whole
      by (rule urljoin_plain [OF bungie_base urlparse_path [OF assms(2) no_slash]
            urlunparse_path [OF no_slash] assms(3-6)])
  next
    assume "lstrip CHR ''/'' path = q @ CHR ''#'' # f \<and> f \<noteq> [] \<and> list_all fragment_char f"
    then have parts: "lstrip CHR ''/'' path = q @ CHR ''#'' # f" and f: "f \<noteq> []"
      "list_all fragment_char f"
      by simp_all
    show ?thesis
      unfolding parts
      by (rule urljoin_plain [OF bungie_base urlparse_path_fragment [OF assms(2) no_slash f(2)]
            urlunparse_path_fragment [OF no_slash f(1)] assms(3-6)])
  qed
  then show ?thesis
    unfolding build_url_def base by simp
qed

section \<open>Properties of the client\<close>

lemma bungie_url:
  "build_url h ''https://www.bungie.net/Platform'' ''/Destiny2/Foo''
     = Inr ''https://www.bungie.net/Platform/Destiny2/Foo''"
  by code_simp

lemma new_session_url:
  "build_url (host_ok env) (base_url (init key tmo)) ''/Destiny2/Foo'' = Inr (req_url foo_request)"
  by (simp add: init_def bungie_url foo_request_def)

lemma foo_request_eq:
  "\<lparr>req_method = ''GET'', req_url = req_url foo_request, req_params = None, req_json = None\<rparr>
     = foo_request"
  by (simp add: foo_request_def)

lemma make_request_returned:
  assumes "build_url (host_ok env) (base_url s) endpoint = Inr url"
    and "transport env \<lparr>req_method = method, req_url = url, req_params = params,
                         req_json = data\<rparr> = Returned r"
  shows "fst (make_request env method endpoint params data (s, w)) = interpret_response r"
  using assms
  by (simp add: make_request_def client_request_def Let_def)

lemma str_int_30: "str_int 30 = ''30''"
  by code_simp

lemma str_int_45: "str_int 45 = ''45''"
  by code_simp

lemma interpret_response_429_absent:
  assumes "status_code r = 429" and "headers_get (response_headers r) ''Retry-After'' = None"
  shows "interpret_response r =
    Inl (Bungie BungieRateLimitException ''Rate limit exceeded. Try again after 30 seconds.''
          None (Some (HttpResponse r)))"
  using assms by (simp add: interpret_response_def str_int_30)

lemma interpret_response_429_integer:
  assumes "status_code r = 429" and "headers_get (response_headers r) ''Retry-After'' = Some v"
    and "int_of_str v = Some n"
  shows "interpret_response r =
    Inl (Bungie BungieRateLimitException
          (''Rate limit exceeded. Try again after '' @ str_int n @ '' seconds.'')
          None (Some (HttpResponse r)))"
  using assms by (simp add: interpret_response_def)

lemma interpret_response_429_not_integer:
  assumes "status_code r = 429" and "headers_get (response_headers r) ''Retry-After'' = Some v"
    and "int_of_str v = None"
  shows "interpret_response r = Inl ValueError"
  using assms by (simp add: interpret_response_def)

text \<open>
  What \<^verbatim>\<open>_make_request\<close> does with status 429 when the header is absent or holds an
  integer; and that a call dispatches one request, whatever comes back.
\<close>

lemma make_request_rate_limited:
  assumes "build_url (host_ok env) (base_url s) endpoint = Inr url"
    and "transport env \<lparr>req_method = method, req_url = url, req_params = params,
                         req_json = data\<rparr> = Returned r"
    and "status_code r = 429"
    and "(headers_get (response_headers r) ''Retry-After'' = None \<and> n = 30)
         \<or> (headers_get (response_headers r) ''Retry-After'' = Some v \<and> int_of_str v = Some n)"
  shows "fst (make_request env method endpoint params data (s, w)) =
    Inl (Bungie BungieRateLimitException
          (''Rate limit exceeded. Try again after '' @ str_int n @ '' seconds.'')
          None (Some (HttpResponse r)))"
proof -
  have "interpret_response r =
    Inl (Bungie BungieRateLimitException
          (''Rate limit exceeded. Try again after '' @ str_int n @ '' seconds.'')
          None (Some (HttpResponse r)))"
    using assms(3,4) by (auto simp: interpret_response_def)
  then show ?thesis
    by (simp only: make_request_returned [OF assms(1,2)])
qed

lemma make_request_dispatches_once:
  assumes "build_url (host_ok env) (base_url s) endpoint = Inr url"
  shows "\<exists>t. dispatched (snd (snd (make_request env method endpoint params data (s, w))))
           = (t, \<lparr>req_method = method, req_url = url, req_params = params, req_json = data\<rparr>)
             # dispatched w"
  using assms
  by (auto simp: make_request_def client_request_def asyncio_sleep_def Let_def
        split: outcome.splits)

lemma retry_after_45:
  "interpret_response (rate_limited [(''retry-after'', ''45'')]) =
    Inl (Bungie BungieRateLimitException ''Rate limit exceeded. Try again after 45 seconds.''
          None (Some (HttpResponse (rate_limited [(''retry-after'', ''45'')]))))"
proof -
  have "headers_get [(''retry-after'', ''45'')] ''Retry-After'' = Some ''45''"
    by code_simp
  moreover have "int_of_str ''45'' = Some 45"
    by code_simp
  ultimately show ?thesis
    using interpret_response_429_integer [of "rate_limited [(''retry-after'', ''45'')]" "''45''" 45]
    by (simp add: rate_limited_def str_int_45)
qed

lemma retry_after_date:
  "interpret_response (rate_limited [(''Retry-After'', ''Wed, 21 Oct 2015 07:28:00 GMT'')])
     = Inl ValueError"
  by code_simp

text \<open>
  C4. A response with status 429 whose \<^verbatim>\<open>Retry-After\<close> header is an HTTP date, the other
  form that the header may take: \<^verbatim>\<open>int\<close> raises \<^verbatim>\<open>ValueError\<close> before the
  \<^verbatim>\<open>BungieRateLimitException\<close> is built, no handler of \<^verbatim>\<open>_make_request\<close> catches it, and
  the call raises \<^verbatim>\<open>ValueError\<close>.
\<close>

theorem make_request_retry_after_date:
  "fst (make_request
         (answering (rate_limited [(''Retry-After'', ''Wed, 21 Oct 2015 07:28:00 GMT'')]))
         ''GET'' ''/Destiny2/Foo'' None None (init ''key'' 30, at_noon))
     = Inl ValueError"
  by (simp add: make_request_def init_def bungie_url client_request_def answering_def
        retry_after_date Let_def)

text \<open>
  C5. When the transport returns a response with a status of 400 or more that is not
  429, \<^verbatim>\<open>_make_request\<close> raises a \<^verbatim>\<open>BungieAPIException\<close> whose code is that status and
  whose response is the transport's response. When the transport raises a
  \<^verbatim>\<open>RequestError\<close>, it raises a \<^verbatim>\<open>BungieAPIException\<close> whose message is
  \<^verbatim>\<open>Request error occurred: \<close> and the text of the error, with no code and no response.
\<close>

theorem make_request_http_and_transport_errors:
  assumes "build_url (host_ok env) (base_url s) endpoint = Inr url"
  shows "(transport env \<lparr>req_method = verb, req_url = url, req_params = params,
                         req_json = data\<rparr> = Returned r
            \<and> 400 \<le> status_code r \<and> status_code r \<noteq> 429
          \<longrightarrow> fst (make_request env verb endpoint params data (s, w))
                = Inl (Bungie BungieAPIException
                        (''HTTP error occurred: '' @ status_error_text r)
                        (Some (JInt (status_code r))) (Some (HttpResponse r))))
       \<and> (transport env \<lparr>req_method = verb, req_url = url, req_params = params,
                         req_json = data\<rparr> = RequestError msg
          \<longrightarrow> fst (make_request env verb endpoint params data (s, w))
                = Inl (Bungie BungieAPIException (''Request error occurred: '' @ msg)
                        None None))"
  using assms
  by (auto simp: make_request_def client_request_def interpret_response_def is_success_def
        Let_def)

theorem make_request_http_and_transport_errors_witness:
  "build_url (host_ok (answering not_found)) (base_url (init ''key'' 30)) ''/Destiny2/Foo''
     = Inr (req_url foo_request)
   \<and> transport (answering not_found) foo_request = Returned not_found
   \<and> 400 \<le> status_code not_found \<and> status_code not_found \<noteq> 429
   \<and> fst (make_request (answering not_found) ''GET'' ''/Destiny2/Foo'' None None
           (init ''key'' 30, at_noon))
     = Inl (Bungie BungieAPIException ''HTTP error occurred: Client error 404 Not Found''
             (Some (JInt 404)) (Some (HttpResponse not_found)))
   \<and> build_url (host_ok unreachable) (base_url (init ''key'' 30)) ''/Destiny2/Foo''
     = Inr (req_url foo_request)
   \<and> transport unreachable foo_request = RequestError ''All connection attempts failed''
   \<and> fst (make_request unreachable ''GET'' ''/Destiny2/Foo'' None None
           (init ''key'' 30, at_noon))
     = Inl (Bungie BungieAPIException
             ''Request error occurred: All connection attempts failed'' None None)"
  using make_request_http_and_transport_errors
          [where env = "answering not_found" and s = "init ''key'' 30"
             and endpoint = "''/Destiny2/Foo''" and url = "req_url foo_request"
             and verb = "''GET''" and params = None and data = None and r = not_found
             and w = at_noon]
        make_request_http_and_transport_errors
          [where env = unreachable and s = "init ''key'' 30"
             and endpoint = "''/Destiny2/Foo''" and url = "req_url foo_request"
             and verb = "''GET''" and params = None and data = None and w = at_noon
             and msg = "''All connection attempts failed''"]
  by (simp add: new_session_url foo_request_eq)
     (simp add: answering_def unreachable_def not_found_def)

text \<open>
  C6. A call of \<^verbatim>\<open>_make_request\<close> changes no attribute of the session but the time of
  the last request; and whenever the transport returns a response, whatever its status
  and its body, the session then holds the time at which the call came back.
\<close>

theorem make_request_records_time:
  "api_key (fst (snd (make_request env method endpoint params data (s, w)))) = api_key s
   \<and> base_url (fst (snd (make_request env method endpoint params data (s, w)))) = base_url s
   \<and> timeout (fst (snd (make_request env method endpoint params data (s, w)))) = timeout s
   \<and> headers (fst (snd (make_request env method endpoint params data (s, w)))) = headers s
   \<and> min_time_between_requests (fst (snd (make_request env method endpoint params data (s, w))))
       = min_time_between_requests s
   \<and> (build_url (host_ok env) (base_url s) endpoint = Inr url
        \<and> transport env \<lparr>req_method = method, req_url = url, req_params = params,
                          req_json = data\<rparr> = Returned r
      \<longrightarrow> fst (snd (make_request env method endpoint params data (s, w)))
            = s\<lparr>last_request_time :=
                  time_time (snd (snd (make_request env method endpoint params data (s, w))))\<rparr>)"
  by (auto simp: make_request_def client_request_def time_time_def Let_def
        split: sum.splits outcome.splits)

theorem make_request_records_time_witness:
  "build_url (host_ok (answering not_found)) (base_url (init ''key'' 30)) ''/Destiny2/Foo''
     = Inr (req_url foo_request)
   \<and> transport (answering not_found) foo_request = Returned not_found
   \<and> time_time (snd (snd (make_request (answering not_found) ''GET'' ''/Destiny2/Foo'' None None
                             (init ''key'' 30, at_noon))))
     = 43200 + 1 / 20
   \<and> fst (snd (make_request (answering not_found) ''GET'' ''/Destiny2/Foo'' None None
                (init ''key'' 30, at_noon)))
     = (init ''key'' 30)\<lparr>last_request_time := 43200 + 1 / 20\<rparr>
   \<and> transport (answering (answered (JObj [(''ErrorCode'', JInt 5)]))) foo_request
     = Returned (answered (JObj [(''ErrorCode'', JInt 5)]))
   \<and> fst (snd (make_request (answering (answered (JObj [(''ErrorCode'', JInt 5)])))
                ''GET'' ''/Destiny2/Foo'' None None (init ''key'' 30, at_noon)))
     = (init ''key'' 30)\<lparr>last_request_time := 43200 + 1 / 20\<rparr>"
proof -
  have a: "time_time (snd (snd (make_request (answering r) ''GET'' ''/Destiny2/Foo''
                                  None None (init ''key'' 30, at_noon))))
             = 43200 + 1 / 20" for r
    by (simp add: make_request_def init_def bungie_url client_request_def answering_def
          at_noon_def time_time_def Let_def)
  have b: "transport (answering r) foo_request = Returned r" for r
    by (simp add: answering_def)
  show ?thesis
    using make_request_records_time
            [of "answering not_found" "''GET''" "''/Destiny2/Foo''" None None
                "init ''key'' 30" at_noon "req_url foo_request" not_found]
          make_request_records_time
            [of "answering (answered (JObj [(''ErrorCode'', JInt 5)]))" "''GET''"
                "''/Destiny2/Foo''" None None
                "init ''key'' 30" at_noon "req_url foo_request"
                "answered (JObj [(''ErrorCode'', JInt 5)])"]
    by (simp add: a b new_session_url foo_request_eq)
qed

lemma error_envelope_answer:
  "fst (make_request (answering (answered (JObj [(''ErrorCode'', JInt 5)])))
         ''GET'' ''/Destiny2/Foo'' None None (init ''key'' 30, at_noon))
     = Inl (Bungie BungieAPIException ''Unknown Error: No error message provided''
             (Some (JInt 5)) (Some (Envelope (JObj [(''ErrorCode'', JInt 5)]))))"
proof -
  have "interpret_response (answered (JObj [(''ErrorCode'', JInt 5)]))
     = Inl (Bungie BungieAPIException ''Unknown Error: No error message provided''
             (Some (JInt 5)) (Some (Envelope (JObj [(''ErrorCode'', JInt 5)]))))"
    by (simp add: interpret_response_def answered_def is_success_def dict_get_def)
  then show ?thesis
    by (simp add: make_request_returned [OF new_session_url] foo_request_eq answering_def)
qed

text \<open>
  C10. When the transport call raises instead of returning a response, the session is
  left as it was: the time of the last request is not set, and the next call measures
  its wait from the time of the last response.
\<close>

theorem make_request_transport_failure:
  assumes "build_url (host_ok env) (base_url s) endpoint = Inr url"
    and "transport env \<lparr>req_method = verb, req_url = url, req_params = params,
                         req_json = data\<rparr> = RequestError msg
         \<or> transport env \<lparr>req_method = verb, req_url = url, req_params = params,
                         req_json = data\<rparr> = OtherError name"
  shows "fst (snd (make_request env verb endpoint params data (s, w))) = s
         \<and> last_request_time (fst (snd (make_request env verb endpoint params data (s, w))))
             = last_request_time s"
  using assms
  by (auto simp: make_request_def client_request_def Let_def)

theorem make_request_transport_failure_witness:
  "build_url (host_ok unreachable) (base_url (init ''key'' 30)) ''/Destiny2/Foo''
     = Inr (req_url foo_request)
   \<and> transport unreachable foo_request = RequestError ''All connection attempts failed''
   \<and> fst (snd (make_request unreachable ''GET'' ''/Destiny2/Foo'' None None
                (init ''key'' 30, at_noon)))
     = init ''key'' 30"
proof -
  have b: "transport unreachable foo_request = RequestError ''All connection attempts failed''"
    by (simp add: unreachable_def)
  show ?thesis
    using make_request_transport_failure
            [where env = unreachable and s = "init ''key'' 30"
               and endpoint = "''/Destiny2/Foo''" and url = "req_url foo_request"
               and verb = "''GET''" and params = None and data = None and w = at_noon
               and msg = "''All connection attempts failed''"]
    by (simp add: b new_session_url foo_request_eq)
qed

text \<open>
  C8. \<^verbatim>\<open>search_destiny_player\<close> is a \<^verbatim>\<open>GET\<close> of
  \<^verbatim>\<open>/Destiny2/SearchDestinyPlayer/{membership_type}/{display_name}\<close> with no parameters and
  no body, where the membership type is read off the lower-cased platform name: 1 for
  xbox, 2 for psn, 3 for steam, 5 for stadia, 6 for epic, and -1 for every other name
  and for no name.
\<close>

theorem search_destiny_player_endpoint:
  "search_destiny_player env display_name platform sw =
     make_request env ''GET''
       (''/Destiny2/SearchDestinyPlayer/''
          @ (case platform of
               None \<Rightarrow> ''-1''
             | Some p \<Rightarrow>
                 if py_lower p = ''xbox'' then ''1''
                 else if py_lower p = ''psn'' then ''2''
                 else if py_lower p = ''steam'' then ''3''
                 else if py_lower p = ''stadia'' then ''5''
                 else if py_lower p = ''epic'' then ''6''
                 else ''-1'')
          @ ''/'' @ display_name)
       None None sw"
proof (cases platform)
  case None
  then show ?thesis by (simp add: search_destiny_player_def)
next
  case (Some p)
  have "py_lower [] = []" by (simp add: py_lower_def)
  then have "p = [] \<Longrightarrow> py_lower p \<noteq> ''xbox'' \<and> py_lower p \<noteq> ''psn'' \<and> py_lower p \<noteq> ''steam''
     \<and> py_lower p \<noteq> ''stadia'' \<and> py_lower p \<noteq> ''epic''"
    by simp
  with Some show ?thesis
    by (auto simp: search_destiny_player_def platform_map_def)
qed

lemma py_lower_PSN: "py_lower ''PSN'' = ''psn''"
  by code_simp

lemma py_lower_Switch: "py_lower ''Switch'' = ''switch''"
  by code_simp

theorem search_destiny_player_endpoint_witness:
  "search_destiny_player unreachable ''Name#1234'' (Some ''PSN'') (init ''key'' 30, at_noon)
     = make_request unreachable ''GET'' ''/Destiny2/SearchDestinyPlayer/2/Name#1234'' None None
         (init ''key'' 30, at_noon)
   \<and> search_destiny_player unreachable ''Name#1234'' (Some ''Switch'') (init ''key'' 30, at_noon)
     = make_request unreachable ''GET'' ''/Destiny2/SearchDestinyPlayer/-1/Name#1234'' None None
         (init ''key'' 30, at_noon)
   \<and> search_destiny_player unreachable ''Name#1234'' None (init ''key'' 30, at_noon)
     = make_request unreachable ''GET'' ''/Destiny2/SearchDestinyPlayer/-1/Name#1234'' None None
         (init ''key'' 30, at_noon)"
  using search_destiny_player_endpoint
          [of unreachable "''Name#1234''" "Some ''PSN''" "(init ''key'' 30, at_noon)"]
        search_destiny_player_endpoint
          [of unreachable "''Name#1234''" "Some ''Switch''" "(init ''key'' 30, at_noon)"]
        search_destiny_player_endpoint
          [of unreachable "''Name#1234''" None "(init ''key'' 30, at_noon)"]
  by (simp add: py_lower_PSN py_lower_Switch)

lemma urlsplit_error: "urlsplit h u sch = Inl e \<Longrightarrow> e = ValueError"
  by (simp add: urlsplit_def Let_def split: if_splits)

lemma urlparse_error: "urlparse h u sch = Inl e \<Longrightarrow> e = ValueError"
  by (auto simp: urlparse_def split: sum.splits if_splits dest: urlsplit_error)

lemma urljoin_error: "urljoin h b u = Inl e \<Longrightarrow> e = ValueError"
  by (auto simp: urljoin_def Let_def split: sum.splits if_splits prod.splits dest: urlparse_error)

lemma build_url_error: "build_url h b p = Inl e \<Longrightarrow> e = ValueError"
  by (auto simp: build_url_def dest: urljoin_error)

lemma handle_bungie_response_class:
  "handle_bungie_response j = Inl (Bungie cls m c r) \<Longrightarrow> cls = BungieAPIException"
  by (cases j) (auto simp: Let_def split: if_splits)

lemma interpret_response_class:
  "interpret_response x = Inl (Bungie cls m c r)
     \<Longrightarrow> cls = BungieAPIException \<or> cls = BungieRateLimitException"
  by (auto simp: interpret_response_def split: if_splits option.splits
        dest: handle_bungie_response_class)

lemma make_request_class:
  "fst (make_request env method endpoint params data sw) = Inl (Bungie cls m c r)
     \<Longrightarrow> cls = BungieAPIException \<or> cls = BungieRateLimitException"
  by (cases sw)
     (auto simp: make_request_def client_request_def Let_def
        split: sum.splits outcome.splits dest: build_url_error interpret_response_class)

lemma format_int_error: "format_int i = Inl e \<Longrightarrow> e = ValueError"
  by (simp add: format_int_def split: if_splits)

text \<open>
  C9. Nothing in the client raises \<^verbatim>\<open>BungieMaintenanceException\<close>: not
  \<^verbatim>\<open>_make_request\<close>, not the three request builders, not the response interpreter,
  whatever the arguments, the session and the behaviour of the transport.
\<close>

theorem maintenance_never_raised:
  "fst (make_request env method endpoint params data sw)
     \<noteq> Inl (Bungie BungieMaintenanceException m c r)
   \<and> fst (search_destiny_player env display_name platform sw)
     \<noteq> Inl (Bungie BungieMaintenanceException m c r)
   \<and> fst (get_profile env membership_type destiny_membership_id components sw)
     \<noteq> Inl (Bungie BungieMaintenanceException m c r)
   \<and> fst (get_activity_history env membership_type destiny_membership_id character_id
            mode page count sw)
     \<noteq> Inl (Bungie BungieMaintenanceException m c r)
   \<and> handle_bungie_response j \<noteq> Inl (Bungie BungieMaintenanceException m c r)"
proof -
  have a: "fst (make_request env method' endpoint' params' data' sw)
             \<noteq> Inl (Bungie BungieMaintenanceException m c r)" for method' endpoint' params' data'
    using make_request_class by blast
  have b: "handle_bungie_response j \<noteq> Inl (Bungie BungieMaintenanceException m c r)"
    using handle_bungie_response_class by blast
  show ?thesis
    using a b
    by (auto simp: search_destiny_player_def get_profile_def get_activity_history_def Let_def
          split: sum.splits dest: format_int_error)
qed

theorem maintenance_never_raised_witness:
  "fst (make_request unreachable ''GET'' ''/Destiny2/Foo'' None None (init ''key'' 30, at_noon))
     \<noteq> Inl (Bungie BungieMaintenanceException [] None None)
   \<and> handle_bungie_response (JObj []) \<noteq> Inl (Bungie BungieMaintenanceException [] None None)"
  using maintenance_never_raised
          [of unreachable "''GET''" "''/Destiny2/Foo''" None None "(init ''key'' 30, at_noon)"
              "[]" None None _ _ _ _ _ _ _ _ _ "JObj []"]
  by simp

text \<open>
  C7, as the code has it. Before anything else \<^verbatim>\<open>_make_request\<close> takes the time since the
  session's last request, and when that is less than the session's minimum interval it
  sleeps for the minimum interval less that time, once. When two calls follow one
  another on a session and the transport returned a response to the first, the second
  request is dispatched at least the minimum interval after the first, on a clock that
  does not run backwards and with a sleep that does not end early. The minimum interval
  of a new session is a tenth of a second.
\<close>

theorem make_request_throttle:
  "sleeps (snd (snd (make_request env method endpoint params data (s, w))))
     = (if time_time w - last_request_time s < min_time_between_requests s
        then [min_time_between_requests s - (time_time w - last_request_time s)]
        else []) @ sleeps w
   \<and> min_time_between_requests (init key tmo) = 1 / 10
   \<and> (build_url (host_ok env1) (base_url s) (call_endpoint call1) = Inr url1
        \<and> transport env1 \<lparr>req_method = call_method call1, req_url = url1,
                           req_params = call_params call1, req_json = call_data call1\<rparr>
            = Returned r
        \<and> build_url (host_ok env2) (base_url s) (call_endpoint call2) = Inr url2
        \<and> 0 \<le> latency env1 \<and> 0 \<le> idle \<and> 0 \<le> oversleep env2
      \<longrightarrow> (\<exists>t1 t2.
             dispatch_times (snd (two_requests env1 call1 idle env2 call2 (s, w)))
               = t2 # t1 # dispatch_times w
             \<and> t1 + min_time_between_requests s \<le> t2))"
proof (intro conjI impI)
  show "sleeps (snd (snd (make_request env method endpoint params data (s, w))))
     = (if time_time w - last_request_time s < min_time_between_requests s
        then [min_time_between_requests s - (time_time w - last_request_time s)]
        else []) @ sleeps w"
    by (auto simp: make_request_def client_request_def asyncio_sleep_def time_time_def Let_def
          split: sum.splits outcome.splits)
next
  show "min_time_between_requests (init key tmo) = 1 / 10"
    by (simp add: init_def)
next
  assume h: "build_url (host_ok env1) (base_url s) (call_endpoint call1) = Inr url1
        \<and> transport env1 \<lparr>req_method = call_method call1, req_url = url1,
                           req_params = call_params call1, req_json = call_data call1\<rparr>
            = Returned r
        \<and> build_url (host_ok env2) (base_url s) (call_endpoint call2) = Inr url2
        \<and> 0 \<le> latency env1 \<and> 0 \<le> idle \<and> 0 \<le> oversleep env2"
  define req1 where "req1 = \<lparr>req_method = call_method call1, req_url = url1,
                           req_params = call_params call1, req_json = call_data call1\<rparr>"
  define req2 where "req2 = \<lparr>req_method = call_method call2, req_url = url2,
                           req_params = call_params call2, req_json = call_data call2\<rparr>"
  define w1 where "w1 = (if time_time w - last_request_time s < min_time_between_requests s
                  then asyncio_sleep env1
                         (min_time_between_requests s - (time_time w - last_request_time s)) w
                  else w)"
  define s' where "s' = s\<lparr>last_request_time := clock w1 + latency env1\<rparr>"
  define w' where "w' = w1\<lparr>clock := clock w1 + latency env1,
                             dispatched := (clock w1, req1) # dispatched w1\<rparr>"
  have first: "snd (perform env1 call1 (s, w)) = (s', w')"
    using h by (simp add: perform_def make_request_def client_request_def time_time_def Let_def
        w1_def s'_def w'_def req1_def)
  have dw1: "dispatched w1 = dispatched w"
    by (simp add: w1_def asyncio_sleep_def)
  define v where "v = elapse idle w'"
  define v1 where "v1 = (if time_time v - last_request_time s' < min_time_between_requests s'
                  then asyncio_sleep env2
                         (min_time_between_requests s' - (time_time v - last_request_time s')) v
                  else v)"
  have bu: "base_url s' = base_url s"
    by (simp add: s'_def)
  have second: "dispatched (snd (snd (perform env2 call2 (s', v)))) = (clock v1, req2) # dispatched v"
    using h
    by (auto simp: perform_def make_request_def client_request_def Let_def v1_def bu
          asyncio_sleep_def req2_def split: outcome.splits)
  have dv: "dispatched v = dispatched w'"
    by (simp add: v_def elapse_def)
  have times: "dispatch_times (snd (two_requests env1 call1 idle env2 call2 (s, w)))
      = clock v1 # clock w1 # dispatch_times w"
  proof -
    have "two_requests env1 call1 idle env2 call2 (s, w) = snd (perform env2 call2 (s', v))"
      by (simp add: two_requests_def first Let_def v_def)
    then have "dispatched (snd (two_requests env1 call1 idle env2 call2 (s, w)))
                 = (clock v1, req2) # dispatched w'"
      by (simp add: second dv)
    then show ?thesis
      by (simp add: dispatch_times_def w'_def dw1)
  qed
  have "clock w1 + min_time_between_requests s \<le> clock v1"
    using h
    by (auto simp: v1_def v_def elapse_def w'_def s'_def asyncio_sleep_def time_time_def)
  with times show "\<exists>t1 t2.
             dispatch_times (snd (two_requests env1 call1 idle env2 call2 (s, w)))
               = t2 # t1 # dispatch_times w
             \<and> t1 + min_time_between_requests s \<le> t2"
    by blast
qed

text \<open>
  Two calls on a new session, the second a hundredth of a second after the first has
  ended. When the transport fails both times within a hundredth of a second, the two
  requests are dispatched a fiftieth of a second apart: the first call has left no time
  stamp to wait for.
\<close>

lemma two_failing_requests:
  "dispatch_times (snd (two_requests unreachable get_foo (1 / 100) unreachable get_foo
                         (init ''key'' 30, at_noon)))
     = [43200 + 1 / 50, 43200]"
  by (simp add: Let_def two_requests_def perform_def get_foo_def make_request_def init_def
        bungie_url client_request_def unreachable_def at_noon_def time_time_def elapse_def
        dispatch_times_def)

theorem two_failing_requests_too_close:
  "dispatch_times (snd (two_requests unreachable get_foo (1 / 100) unreachable get_foo
                         (init ''key'' 30, at_noon)))
     = [43200 + 1 / 50, 43200]
   \<and> \<not> (43200 + min_time_between_requests (init ''key'' 30) \<le> 43200 + 1 / 50)"
  by (simp add: two_failing_requests) (simp add: init_def)

theorem make_request_throttle_witness:
  "build_url (host_ok (answering not_found)) (base_url (init ''key'' 30)) (call_endpoint get_foo)
     = Inr (req_url foo_request)
   \<and> transport (answering not_found) foo_request = Returned not_found
   \<and> 0 \<le> latency (answering not_found) \<and> (0::real) \<le> 1 / 100
   \<and> 0 \<le> oversleep (answering not_found)
   \<and> dispatch_times (snd (two_requests (answering not_found) get_foo (1 / 100)
                             (answering not_found) get_foo (init ''key'' 30, at_noon)))
     = [43200 + 3 / 20, 43200]
   \<and> 43200 + min_time_between_requests (init ''key'' 30) \<le> (43200 + 3 / 20 :: real)"
proof -
  have times: "dispatch_times (snd (two_requests (answering not_found) get_foo (1 / 100)
                         (answering not_found) get_foo (init ''key'' 30, at_noon)))
     = [43200 + 3 / 20, 43200]"
    by (simp add: Let_def two_requests_def perform_def get_foo_def make_request_def init_def
          bungie_url client_request_def answering_def at_noon_def time_time_def elapse_def
          dispatch_times_def asyncio_sleep_def)
  have url: "build_url (host_ok (answering not_found)) (base_url (init ''key'' 30))
               (call_endpoint get_foo) = Inr (req_url foo_request)"
    by (simp add: get_foo_def new_session_url)
  have rest: "transport (answering not_found) foo_request = Returned not_found"
    "0 \<le> latency (answering not_found)" "0 \<le> oversleep (answering not_found)"
    "43200 + min_time_between_requests (init ''key'' 30) \<le> (43200 + 3 / 20 :: real)"
    by (simp_all add: answering_def init_def)
  show ?thesis
    using make_request_throttle
            [of "answering not_found" "''GET''" "''/Destiny2/Foo''" None None "init ''key'' 30"
                at_noon "''key''" 30 "answering not_found" get_foo
                "req_url foo_request" not_found
                "answering not_found" get_foo
                "req_url foo_request" "1 / 100"]
    by (simp add: times url rest)
qed

end
